theory Spec2Isabelle
  imports Complex_Main
begin

section \<open>Python values, errors and array objects\<close>

text \<open>
  The module \<^verbatim>\<open>ross/results.py\<close> defines \<^verbatim>\<open>Results\<close>, a subclass of
  \<^verbatim>\<open>numpy.ndarray\<close> that carries named attributes, and six subclasses that plot.
  An exception is a value \<open>Inl e\<close> of the sum type \<open>error + 'a\<close>; the constructors of
  \<open>error\<close> are the Python exception classes that occur. \<open>UnpicklingError\<close> stands for
  what the unpickler raises on a stream it cannot read (\<^verbatim>\<open>UnpicklingError\<close>, \<^verbatim>\<open>EOFError\<close>).
\<close>

datatype error =
    AttributeError
  | NotImplementedError
  | IndexError
  | ValueError
  | TypeError
  | UnboundLocalError
  | UnpicklingError

text \<open>
  The values that attributes, pickled states and arguments range over. A dictionary is an
  association list in insertion order, which is the order \<^verbatim>\<open>.items()\<close> yields.
  \<open>VArray shape data\<close> is a float array in C order; \<open>VMethod name\<close> is a method of the
  class, as attribute lookup returns it.
\<close>

datatype pyval =
    VNone
  | VBool bool
  | VInt int
  | VFloat real
  | VStr string
  | VBytes "nat list"
  | VList "pyval list"
  | VTuple "pyval list"
  | VDict "(string \<times> pyval) list"
  | VArray "nat list" "real list"
  | VMethod string

datatype cls =
    Ndarray
  | Results
  | CampbellResults
  | FrequencyResponseResults
  | ForcedResponseResults
  | ModeShapeResults
  | StaticResults
  | ConvergenceResults

text \<open>
  An array object: its class, the numeric payload (the part \<^verbatim>\<open>numpy\<close> owns, of a type
  \<open>'p\<close> chosen per result kind) and the instance dictionary. The internal registry
  \<^verbatim>\<open>_new_attributes\<close> lives in the instance dictionary, as it does in the source.
\<close>

record 'p obj =
  cls_of :: cls
  payload :: 'p
  attrs :: "string \<rightharpoonup> pyval"

text \<open>
  What the type of an instance provides under a name. A data descriptor of \<^verbatim>\<open>ndarray\<close>
  (\<^verbatim>\<open>shape\<close>, \<^verbatim>\<open>dtype\<close>, \<^verbatim>\<open>size\<close>, \<^verbatim>\<open>T\<close>, ...) takes precedence over the instance
  dictionary: reading the name calls its getter on the array, and assigning to it calls its
  setter, which returns the array as altered or raises (\<^verbatim>\<open>ValueError\<close> for a shape that
  does not fit, \<^verbatim>\<open>AttributeError\<close> for a name that is not writable). Any other attribute
  of the class (a method) is found only when the instance dictionary lacks the name. The
  table belongs to \<^verbatim>\<open>numpy\<close> and to the class at hand; it is the parameter \<open>tp\<close> of
  everything that reads or writes an attribute whose name is data.
\<close>

datatype 'p slot =
    DataDescr "'p \<Rightarrow> pyval" "pyval \<Rightarrow> 'p \<Rightarrow> error + 'p"
  | ClassAttr pyval

type_synonym 'p table = "string \<Rightarrow> 'p slot option"

text \<open>A name is ordinary when assigning to it writes the instance dictionary.\<close>

definition ordinary :: "'p table \<Rightarrow> string \<Rightarrow> bool" where
  "ordinary tp k = (case tp k of Some (DataDescr fget fset) \<Rightarrow> False | _ \<Rightarrow> True)"

text \<open>Sequencing of fallible steps: the first exception ends the computation.\<close>

definition bind :: "error + 'a \<Rightarrow> ('a \<Rightarrow> error + 'b) \<Rightarrow> error + 'b" where
  "bind m f = (case m of Inl e \<Rightarrow> Inl e | Inr x \<Rightarrow> f x)"

text \<open>
  Reading and assigning an attribute under a name written in the source
  (\<^verbatim>\<open>self.nodes\<close>, \<^verbatim>\<open>obj._new_attributes\<close>, \<^verbatim>\<open>obj._new_attributes = ...\<close>): none of
  these names is an attribute of \<^verbatim>\<open>ndarray\<close> or of the classes of the module, so the
  instance dictionary decides. \<open>write_dict\<close> is the write to the dictionary; a plain
  \<^verbatim>\<open>ndarray\<close> has no instance dictionary, so assigning to it raises \<^verbatim>\<open>AttributeError\<close>.
\<close>

definition getattr :: "'p obj \<Rightarrow> string \<Rightarrow> error + pyval" where
  "getattr self k = (case attrs self k of None \<Rightarrow> Inl AttributeError | Some v \<Rightarrow> Inr v)"

definition write_dict :: "'p obj \<Rightarrow> string \<Rightarrow> pyval \<Rightarrow> 'p obj" where
  "write_dict self k v = self\<lparr>attrs := (attrs self)(k \<mapsto> v)\<rparr>"

definition assign :: "'p obj \<Rightarrow> string \<Rightarrow> pyval \<Rightarrow> error + 'p obj" where
  "assign self k v = (if cls_of self = Ndarray then Inl AttributeError else Inr (write_dict self k v))"

text \<open>
  \<^verbatim>\<open>setattr(self, k, v)\<close> and \<^verbatim>\<open>getattr(obj, k, v)\<close> for a name \<open>k\<close> taken from a
  mapping.
\<close>

definition setattr :: "'p table \<Rightarrow> 'p obj \<Rightarrow> string \<Rightarrow> pyval \<Rightarrow> error + 'p obj" where
  "setattr tp self k v =
     (case tp k of
        Some (DataDescr fget fset) \<Rightarrow>
          bind (fset v (payload self)) (\<lambda>p. Inr (self\<lparr>payload := p\<rparr>))
      | _ \<Rightarrow> assign self k v)"

definition getattr_default :: "'p table \<Rightarrow> 'p obj \<Rightarrow> string \<Rightarrow> pyval \<Rightarrow> pyval" where
  "getattr_default tp obj k d =
     (case tp k of
        Some (DataDescr fget fset) \<Rightarrow> fget (payload obj)
      | Some (ClassAttr m) \<Rightarrow> (case attrs obj k of None \<Rightarrow> m | Some v \<Rightarrow> v)
      | None \<Rightarrow> (case attrs obj k of None \<Rightarrow> d | Some v \<Rightarrow> v))"

text \<open>\<^verbatim>\<open>v.items()\<close>: only a dictionary has the method; on every other value the lookup of
  \<^verbatim>\<open>items\<close> raises \<^verbatim>\<open>AttributeError\<close>.\<close>

fun items :: "pyval \<Rightarrow> error + (string \<times> pyval) list" where
  "items (VDict kvs) = Inr kvs"
| "items _ = Inl AttributeError"

section \<open>The class \<^verbatim>\<open>Results\<close>\<close>

subsection \<open>\<^verbatim>\<open>__array_finalize__\<close>\<close>

text \<open>
  \<^verbatim>\<open>for k, v in obj._new_attributes.items(): setattr(self, k, getattr(obj, k, v))\<close>.
  The result is the exception that ended the loop, if one did, and \<open>self\<close> as far as the
  loop got.
\<close>

fun propagate ::
    "'p table \<Rightarrow> (string \<times> pyval) list \<Rightarrow> 'p obj \<Rightarrow> 'p obj \<Rightarrow> error option \<times> 'p obj" where
  "propagate tp [] obj self = (None, self)"
| "propagate tp ((k, v) # kvs) obj self =
     (case setattr tp self k (getattr_default tp obj k v) of
        Inl e \<Rightarrow> (Some e, self)
      | Inr self1 \<Rightarrow> propagate tp kvs obj self1)"

text \<open>
  The hook \<^verbatim>\<open>numpy\<close> calls on every new instance \<open>self\<close>, with the array \<open>obj\<close> it was
  derived from (\<open>None\<close> when built from scratch). The \<^verbatim>\<open>try\<close> block catches
  \<^verbatim>\<open>AttributeError\<close> only: that of a missing registry, of a registry without \<^verbatim>\<open>items\<close>,
  and of a \<^verbatim>\<open>setattr\<close> in the loop, after which \<open>self\<close> keeps what was installed before.
  Any other exception of a \<^verbatim>\<open>setattr\<close> leaves the hook, and the derivation fails with it.
\<close>

definition array_finalize :: "'p table \<Rightarrow> 'p obj \<Rightarrow> 'p obj option \<Rightarrow> error + 'p obj" where
  "array_finalize tp self src =
     (case src of
        None \<Rightarrow> Inr self
      | Some obj \<Rightarrow>
          (case getattr obj ''_new_attributes'' of
             Inl e \<Rightarrow> Inr self
           | Inr reg \<Rightarrow>
               (case items reg of
                  Inl e \<Rightarrow> Inr self
                | Inr kvs \<Rightarrow>
                    (case propagate tp kvs obj self of
                       (None, self1) \<Rightarrow> Inr self1
                     | (Some e, self1) \<Rightarrow>
                         if e = AttributeError then Inr self1 else Inl e))))"

text \<open>
  How \<^verbatim>\<open>numpy\<close> creates instances of the subclass: a fresh instance of class \<open>c\<close> with an
  empty instance dictionary, handed to the hook together with its source.
  \<open>view\<close> is \<^verbatim>\<open>np.asarray(input_array).view(cls)\<close>, whose source is a plain array;
  \<open>derived\<close> is a slice, a copy or an arithmetic result of an instance \<open>x\<close>, with the new
  payload \<open>p\<close>; \<open>reconstruct\<close> is what unpickling calls before \<^verbatim>\<open>__setstate__\<close>, on an
  empty array \<open>p0\<close>.
\<close>

definition fresh :: "cls \<Rightarrow> 'p \<Rightarrow> 'p obj" where
  "fresh c p = \<lparr>cls_of = c, payload = p, attrs = Map.empty\<rparr>"

definition view :: "'p table \<Rightarrow> cls \<Rightarrow> 'p \<Rightarrow> error + 'p obj" where
  "view tp c p = array_finalize tp (fresh c p) (Some (fresh Ndarray p))"

definition derived :: "'p table \<Rightarrow> 'p obj \<Rightarrow> 'p \<Rightarrow> error + 'p obj" where
  "derived tp x p = array_finalize tp (fresh (cls_of x) p) (Some x)"


subsection \<open>\<^verbatim>\<open>__new__\<close>\<close>

text \<open>\<^verbatim>\<open>for k, v in new_attributes.items(): setattr(obj, k, v)\<close>\<close>

fun install :: "'p table \<Rightarrow> (string \<times> pyval) list \<Rightarrow> 'p obj \<Rightarrow> error + 'p obj" where
  "install tp [] obj = Inr obj"
| "install tp ((k, v) # kvs) obj = bind (setattr tp obj k v) (install tp kvs)"

definition Results_new :: "'p table \<Rightarrow> cls \<Rightarrow> 'p \<Rightarrow> pyval \<Rightarrow> error + 'p obj" where
  "Results_new tp c input_array new_attributes =
     bind (view tp c input_array) (\<lambda>obj.
       bind (items new_attributes) (\<lambda>kvs.
         bind (install tp kvs obj) (\<lambda>obj1.
           assign obj1 ''_new_attributes'' new_attributes)))"

subsection \<open>\<^verbatim>\<open>__reduce__\<close> and \<^verbatim>\<open>__setstate__\<close>\<close>

text \<open>
  \<^verbatim>\<open>super().__reduce__()\<close> and \<^verbatim>\<open>super().__setstate__\<close> belong to \<^verbatim>\<open>numpy\<close>; they are the
  parameters \<open>nd_reduce\<close> (the state tuple of a payload) and \<open>nd_setstate\<close> (the payload a
  state tuple restores, or the exception). A tuple is a list; \<^verbatim>\<open>state[-1]\<close> raises
  \<^verbatim>\<open>IndexError\<close> on the empty tuple.
\<close>

definition Results_reduce :: "('p \<Rightarrow> pyval list) \<Rightarrow> 'p obj \<Rightarrow> error + cls \<times> pyval list" where
  "Results_reduce nd_reduce self =
     (let pickled_state = nd_reduce (payload self) in
      bind (getattr self ''_new_attributes'') (\<lambda>reg.
        Inr (cls_of self, pickled_state @ [reg])))"


subsection \<open>\<^verbatim>\<open>save\<close> and the pickle stream\<close>

text \<open>
  \<^verbatim>\<open>save\<close> writes \<^verbatim>\<open>pickle.dump(self, f)\<close>. The stream \<^verbatim>\<open>pickle\<close> writes is modelled by
  what it encodes, in order: the class to rebuild, the elements of the state tuple that
  \<^verbatim>\<open>__reduce__\<close> returned, and the closing STOP opcode. The unpickler reads the stream up
  to the first STOP and raises when the stream ends before it or is not of this form; it
  then rebuilds an empty instance of the class and hands it the state.
\<close>

datatype token = TClass cls | TItem pyval | TStop



definition dumps :: "('p \<Rightarrow> pyval list) \<Rightarrow> 'p obj \<Rightarrow> error + token list" where
  "dumps nd_reduce self =
     bind (Results_reduce nd_reduce self) (\<lambda>r.
       Inr (TClass (fst r) # map TItem (snd r) @ [TStop]))"



text \<open>
  A concrete instance of the parameters, for one-dimensional float arrays. The state tuple
  is (version, shape, dtype, is_fortran, data). The table lists three data descriptors:
  \<^verbatim>\<open>shape\<close> reads as the 1-tuple of the length, and assigning the length, as a 1-tuple or
  as an integer, leaves the array as it is, while any other length raises \<^verbatim>\<open>ValueError\<close>
  (shapes of another form are not assigned in what follows); \<^verbatim>\<open>size\<close> and \<^verbatim>\<open>ndim\<close> are
  not writable. \<^verbatim>\<open>plot\<close> and \<^verbatim>\<open>save\<close> are the methods of \<^verbatim>\<open>Results\<close>.
\<close>

definition nd_reduce_1d :: "real list \<Rightarrow> pyval list" where
  "nd_reduce_1d p =
     [VInt 1, VTuple [VInt (int (length p))], VStr ''f8'', VBool False, VArray [length p] p]"


definition table_1d :: "real list table" where
  "table_1d k =
     (if k = ''shape''
      then Some (DataDescr (\<lambda>p. VTuple [VInt (int (length p))])
                  (\<lambda>v p. if v = VTuple [VInt (int (length p))] \<or> v = VInt (int (length p))
                         then Inr p else Inl ValueError))
      else if k = ''size''
      then Some (DataDescr (\<lambda>p. VInt (int (length p))) (\<lambda>v p. Inl AttributeError))
      else if k = ''ndim''
      then Some (DataDescr (\<lambda>p. VInt 1) (\<lambda>v p. Inl AttributeError))
      else if k = ''plot'' \<or> k = ''save''
      then Some (ClassAttr (VMethod k))
      else None)"

subsection \<open>\<^verbatim>\<open>plot\<close>\<close>

text \<open>\<^verbatim>\<open>def plot(self, *args, **kwargs): raise NotImplementedError\<close>\<close>

definition Results_plot :: "'p obj \<Rightarrow> pyval list \<Rightarrow> (string \<times> pyval) list \<Rightarrow> error + 'r" where
  "Results_plot self args kwargs = Inl NotImplementedError"

section \<open>Arrays of two and three dimensions\<close>

text \<open>
  The payloads the renderers index. An array is its shape and its element function; indices
  outside the shape are never read, because every read below is guarded the way
  \<^verbatim>\<open>numpy\<close> guards it (\<^verbatim>\<open>IndexError\<close>).
\<close>

record 'a array2 =
  nrows :: nat
  ncols :: nat
  at2 :: "nat \<Rightarrow> nat \<Rightarrow> 'a"

record 'a array3 =
  dim0 :: nat
  dim1 :: nat
  dim2 :: nat
  at3 :: "nat \<Rightarrow> nat \<Rightarrow> nat \<Rightarrow> 'a"

text \<open>\<^verbatim>\<open>a[..., j]\<close> for a literal \<open>j \<ge> 0\<close>.\<close>

definition last_axis :: "'a array3 \<Rightarrow> nat \<Rightarrow> error + 'a array2" where
  "last_axis a j =
     (if j < dim2 a
      then Inr \<lparr>nrows = dim0 a, ncols = dim1 a, at2 = (\<lambda>s i. at3 a s i j)\<rparr>
      else Inl IndexError)"

text \<open>\<^verbatim>\<open>a[:, i]\<close> for \<open>i\<close> taken from \<^verbatim>\<open>range(a.shape[1])\<close>, and for any \<open>i \<ge> 0\<close>.\<close>

definition column :: "'a array2 \<Rightarrow> nat \<Rightarrow> 'a list" where
  "column a i = map (\<lambda>s. at2 a s i) [0..<nrows a]"

definition column_checked :: "'a array2 \<Rightarrow> nat \<Rightarrow> error + 'a list" where
  "column_checked a i = (if i < ncols a then Inr (column a i) else Inl IndexError)"

definition flatten :: "'a array2 \<Rightarrow> 'a list" where
  "flatten a = concat (map (\<lambda>s. map (at2 a s) [0..<ncols a]) [0..<nrows a])"

text \<open>The builtins \<^verbatim>\<open>min\<close> and \<^verbatim>\<open>max\<close> raise \<^verbatim>\<open>ValueError\<close> on an empty sequence.\<close>

definition py_min :: "real list \<Rightarrow> error + real" where
  "py_min xs = (case xs of [] \<Rightarrow> Inl ValueError | x # r \<Rightarrow> Inr (fold min r x))"

definition py_max :: "real list \<Rightarrow> error + real" where
  "py_max xs = (case xs of [] \<Rightarrow> Inl ValueError | x # r \<Rightarrow> Inr (fold max r x))"

text \<open>Boolean-mask indexing \<^verbatim>\<open>a[mask]\<close> of a one-dimensional array by a mask of its length.\<close>

definition select :: "'a list \<Rightarrow> bool list \<Rightarrow> 'a list" where
  "select a msk = map fst (filter snd (zip a msk))"

section \<open>\<^verbatim>\<open>CampbellResults.plot\<close>\<close>

text \<open>
  One scatter series. \<^verbatim>\<open>ax.scatter\<close> and \<^verbatim>\<open>camp.scatter\<close> are called side by side with the
  same marker and the same three masked arrays, so one record stands for the pair.
\<close>

record series =
  marker :: string
  legend :: string
  x_data :: "real list"
  y_data :: "real list"
  color_data :: "real list"

text \<open>The local variable \<^verbatim>\<open>wn\<close>: the flag passed in, or the array that replaces it.\<close>

datatype wn_value = WnFlag bool | WnArray "real array2"

text \<open>
  The body of the inner loop, for one marker and one mode \<open>i\<close>. The test
  \<^verbatim>\<open>whirl_mask.shape[0] == 0\<close> looks at the length of the mask, not at its entries: a mask
  without a true entry still produces a series, an empty one.
\<close>

definition scatter_mode ::
    "wn_value \<Rightarrow> real array2 \<Rightarrow> real array2 \<Rightarrow> real array2 \<Rightarrow> real array2
      \<Rightarrow> string \<times> real \<times> string \<Rightarrow> nat \<Rightarrow> error + series list" where
  "scatter_mode wn wd whirl log_dec speed_range m i =
     (case m of (mark, whirl_dir, lgd) \<Rightarrow>
        bind (if wn = WnFlag True then Inl TypeError else Inr (column wd i)) (\<lambda>w_i.
          (let whirl_i = column whirl i;
               log_dec_i = column log_dec i;
               speed_range_i = column speed_range i;
               whirl_mask = map (\<lambda>w. w = whirl_dir) whirl_i
           in if length whirl_mask = 0 then Inr []
              else Inr [\<lparr>marker = mark, legend = lgd,
                         x_data = select speed_range_i whirl_mask,
                         y_data = select w_i whirl_mask,
                         color_data = select log_dec_i whirl_mask\<rparr>])))"

text \<open>\<^verbatim>\<open>for i in range(num_frequencies)\<close>, over the list of the remaining \<open>i\<close>.\<close>

fun scatter_modes ::
    "wn_value \<Rightarrow> real array2 \<Rightarrow> real array2 \<Rightarrow> real array2 \<Rightarrow> real array2
      \<Rightarrow> string \<times> real \<times> string \<Rightarrow> nat list \<Rightarrow> error + series list" where
  "scatter_modes wn wd whirl log_dec speed_range m [] = Inr []"
| "scatter_modes wn wd whirl log_dec speed_range m (i # is) =
     bind (scatter_mode wn wd whirl log_dec speed_range m i) (\<lambda>s.
       bind (scatter_modes wn wd whirl log_dec speed_range m is) (\<lambda>r. Inr (s @ r)))"

text \<open>\<^verbatim>\<open>for mark, whirl_dir, legend in zip(...)\<close>, over the remaining triples.\<close>

fun scatter_marks ::
    "wn_value \<Rightarrow> real array2 \<Rightarrow> real array2 \<Rightarrow> real array2 \<Rightarrow> real array2
      \<Rightarrow> (string \<times> real \<times> string) list \<Rightarrow> error + series list" where
  "scatter_marks wn wd whirl log_dec speed_range [] = Inr []"
| "scatter_marks wn wd whirl log_dec speed_range (m # ms) =
     (let num_frequencies = ncols wd in
      bind (scatter_modes wn wd whirl log_dec speed_range m [0..<num_frequencies]) (\<lambda>s.
        bind (scatter_marks wn wd whirl log_dec speed_range ms) (\<lambda>r. Inr (s @ r))))"

text \<open>
  The method, up to the series it hands to the two plotting libraries. The payload is the
  three-dimensional array [speed step, mode, quantity]. After the loops the method reads
  \<^verbatim>\<open>speed_range[:, 0]\<close> for the rotor-speed line and \<^verbatim>\<open>color_mapper\<close>, which is bound only
  if a series was drawn.
\<close>

definition CampbellResults_plot :: "real array3 obj \<Rightarrow> bool \<Rightarrow> error + series list" where
  "CampbellResults_plot self wn =
     bind (last_axis (payload self) 0) (\<lambda>wd.
     bind (if wn = True then map_sum id WnArray (last_axis (payload self) 4)
           else Inr (WnFlag wn)) (\<lambda>wn1.
     bind (last_axis (payload self) 1) (\<lambda>log_dec.
     bind (last_axis (payload self) 2) (\<lambda>whirl.
     bind (last_axis (payload self) 3) (\<lambda>speed_range.
     (let log_dec_map = flatten log_dec in
      bind (py_min log_dec_map) (\<lambda>vmin.
      bind (py_max log_dec_map) (\<lambda>vmax.
      bind (scatter_marks wn1 wd whirl log_dec speed_range
              [(''^'', 0, ''Foward''), (''o'', 1 / 2, ''Mixed''), (''v'', 1, ''Backward'')])
        (\<lambda>drawn.
      bind (column_checked speed_range 0) (\<lambda>rotor_speed.
        if drawn = [] then Inl UnboundLocalError else Inr drawn))))))))))"

section \<open>Array attributes and plotting targets\<close>

text \<open>
  Python indexing with an integer: \<open>-n \<le> i < n\<close> is in range, a negative index counts from
  the end, anything else raises \<^verbatim>\<open>IndexError\<close>.
\<close>

definition py_index :: "nat \<Rightarrow> int \<Rightarrow> error + nat" where
  "py_index n i =
     (if 0 \<le> i \<and> i < int n then Inr (nat i)
      else if - int n \<le> i \<and> i < 0 then Inr (nat (i + int n))
      else Inl IndexError)"

text \<open>
  The renderers read \<^verbatim>\<open>frequency_range\<close> as a one-dimensional array and \<^verbatim>\<open>magnitude\<close> as
  a two- or three-dimensional one. A missing attribute raises \<^verbatim>\<open>AttributeError\<close>. The
  plotting calls are modelled on arrays of the documented rank only; a value of any other
  kind is reported as \<^verbatim>\<open>TypeError\<close> at the point where it is read.
\<close>

definition attr_vector :: "'p obj \<Rightarrow> string \<Rightarrow> error + real list" where
  "attr_vector self k =
     bind (getattr self k) (\<lambda>v.
       (case v of
          VArray sh d \<Rightarrow> (if sh = [length d] then Inr d else Inl TypeError)
        | _ \<Rightarrow> Inl TypeError))"

definition attr_matrix :: "'p obj \<Rightarrow> string \<Rightarrow> error + real array2" where
  "attr_matrix self k =
     bind (getattr self k) (\<lambda>v.
       (case v of
          VArray sh d \<Rightarrow>
            (if length sh = 2 \<and> length d = sh ! 0 * sh ! 1
             then Inr \<lparr>nrows = sh ! 0, ncols = sh ! 1, at2 = (\<lambda>r c. d ! (r * sh ! 1 + c))\<rparr>
             else Inl TypeError)
        | _ \<Rightarrow> Inl TypeError))"

definition attr_tensor :: "'p obj \<Rightarrow> string \<Rightarrow> error + real array3" where
  "attr_tensor self k =
     bind (getattr self k) (\<lambda>v.
       (case v of
          VArray sh d \<Rightarrow>
            (if length sh = 3 \<and> length d = sh ! 0 * sh ! 1 * sh ! 2
             then Inr \<lparr>dim0 = sh ! 0, dim1 = sh ! 1, dim2 = sh ! 2,
                       at3 = (\<lambda>a b c. d ! ((a * sh ! 1 + b) * sh ! 2 + c))\<rparr>
             else Inl TypeError)
        | _ \<Rightarrow> Inl TypeError))"

text \<open>\<^verbatim>\<open>mag[dof]\<close> on a two-dimensional and \<^verbatim>\<open>mag[inp, out, :]\<close> on a three-dimensional array.\<close>

definition row :: "'a array2 \<Rightarrow> int \<Rightarrow> error + 'a list" where
  "row a i = bind (py_index (nrows a) i) (\<lambda>r. Inr (map (at2 a r) [0..<ncols a]))"

definition fibre :: "'a array3 \<Rightarrow> int \<Rightarrow> int \<Rightarrow> error + 'a list" where
  "fibre a i j =
     bind (py_index (dim0 a) i) (\<lambda>r.
       bind (py_index (dim1 a) j) (\<lambda>c. Inr (map (at3 a r c) [0..<dim2 a])))"

text \<open>
  What a renderer leaves on the \<^verbatim>\<open>matplotlib\<close> axes and on the \<^verbatim>\<open>bokeh\<close> figure.
  \<^verbatim>\<open>ax.plot(x, y)\<close> raises \<^verbatim>\<open>ValueError\<close> when the two arrays differ in length.
\<close>

record axes =
  ax_ylabel :: string
  ax_xlabel :: string
  ax_xlim :: "(real \<times> real) option"
  ax_lines :: "(real list \<times> real list) list"
  ax_legend :: bool

record figure =
  fig_title :: string
  fig_x_axis_label :: string
  fig_y_axis_label :: string
  fig_x_range :: "(real \<times> real) option"
  fig_line :: "real list \<times> real list"

definition ax_plot :: "axes \<Rightarrow> real list \<Rightarrow> real list \<Rightarrow> error + axes" where
  "ax_plot ax x y =
     (if length x \<noteq> length y then Inl ValueError
      else Inr (ax\<lparr>ax_lines := ax_lines ax @ [(x, y)]\<rparr>))"

text \<open>The label \<^verbatim>\<open>\mu pk-pk\<close> with its backslash, which Python keeps.\<close>

definition mu_pk_pk :: string where
  "mu_pk_pk = CHR 0x5C # ''mu pk-pk''"

text \<open>Reading a local variable that no branch has bound raises \<^verbatim>\<open>UnboundLocalError\<close>.\<close>

definition read_local :: "'a option \<Rightarrow> error + 'a" where
  "read_local v = (case v of None \<Rightarrow> Inl UnboundLocalError | Some x \<Rightarrow> Inr x)"

section \<open>\<^verbatim>\<open>FrequencyResponseResults.plot_magnitude\<close>\<close>

text \<open>
  The \<^verbatim>\<open>if/elif/else\<close> on \<^verbatim>\<open>units\<close> binds \<^verbatim>\<open>y_axis_label\<close> in all three branches; the
  last label lacks its closing parenthesis in the source.
\<close>

definition FrequencyResponseResults_plot_magnitude ::
    "'p obj \<Rightarrow> int \<Rightarrow> int \<Rightarrow> axes \<Rightarrow> string \<Rightarrow> error + axes \<times> figure" where
  "FrequencyResponseResults_plot_magnitude self inp out ax units =
     bind (attr_vector self ''frequency_range'') (\<lambda>frequency_range.
     bind (attr_tensor self ''magnitude'') (\<lambda>mag.
     bind (fibre mag inp out) (\<lambda>y.
     bind (ax_plot ax frequency_range y) (\<lambda>ax1.
     bind (py_max frequency_range) (\<lambda>fmax.
     (let ax2 = ax1\<lparr>ax_xlim := Some (0, fmax)\<rparr>;
          (ax3, y_axis_label) =
            (if units = ''m''
             then (ax2\<lparr>ax_ylabel := ''Amplitude $(m)$''\<rparr>, ''Amplitude (m)'')
             else if units = ''mic-pk-pk''
             then (ax2\<lparr>ax_ylabel := ''Amplitude $('' @ mu_pk_pk @ '')$''\<rparr>,
                   ''Amplitude ('' @ mu_pk_pk @ '')'')
             else (ax2\<lparr>ax_ylabel := ''Amplitude $(dB)$''\<rparr>, ''Amplitude (dB''));
          ax4 = ax3\<lparr>ax_xlabel := ''Frequency (rad/s)''\<rparr>
      in bind (fibre mag inp out) (\<lambda>y1.
           Inr (ax4, \<lparr>fig_title = ''Frequency Response - Magnitude'',
                      fig_x_axis_label = ''Frequency'',
                      fig_y_axis_label = y_axis_label,
                      fig_x_range = None,
                      fig_line = (frequency_range, y1)\<rparr>))))))))"

section \<open>\<^verbatim>\<open>ForcedResponseResults.plot_magnitude\<close>\<close>

text \<open>
  Here the chain is \<^verbatim>\<open>if/elif\<close> without \<^verbatim>\<open>else\<close>: for any other \<^verbatim>\<open>units\<close> the local
  \<^verbatim>\<open>y_axis_label\<close> stays unbound (\<open>None\<close>) until \<^verbatim>\<open>figure(..., y_axis_label=y_axis_label)\<close>
  reads it. \<^verbatim>\<open>mag = 2 * mag * 1e6\<close> builds a new array; reals stand for the floats.
\<close>

definition ForcedResponseResults_plot_magnitude ::
    "'p obj \<Rightarrow> int \<Rightarrow> axes \<Rightarrow> string \<Rightarrow> error + axes \<times> figure" where
  "ForcedResponseResults_plot_magnitude self dof ax units =
     bind (attr_vector self ''frequency_range'') (\<lambda>frequency_range.
     bind (attr_matrix self ''magnitude'') (\<lambda>mag.
     (let (mag1, ax1, y_axis_label) =
            (if units = ''m''
             then (mag, ax\<lparr>ax_ylabel := ''Amplitude $(m)$''\<rparr>, Some ''Amplitude (m)'')
             else if units = ''mic-pk-pk''
             then (mag\<lparr>at2 := (\<lambda>r c. 2 * at2 mag r c * 1000000)\<rparr>,
                   ax\<lparr>ax_ylabel := ''Amplitude $('' @ mu_pk_pk @ '')$''\<rparr>,
                   Some (''Amplitude $('' @ mu_pk_pk @ '')$''))
             else (mag, ax, None))
      in bind (row mag1 dof) (\<lambda>y.
         bind (ax_plot ax1 frequency_range y) (\<lambda>ax2.
         bind (py_max frequency_range) (\<lambda>fmax.
         (let ax3 = ax2\<lparr>ax_xlim := Some (0, fmax), ax_xlabel := ''Frequency (rad/s)'',
                        ax_legend := True\<rparr>
          in bind (py_max frequency_range) (\<lambda>fmax1.
             bind (read_local y_axis_label) (\<lambda>lbl.
             bind (row mag1 dof) (\<lambda>y1.
               Inr (ax3, \<lparr>fig_title = ''Forced Response - Magnitude'',
                          fig_x_axis_label = ''Frequency'',
                          fig_y_axis_label = lbl,
                          fig_x_range = Some (0, fmax1),
                          fig_line = (frequency_range, y1)\<rparr>)))))))))))"

section \<open>\<^verbatim>\<open>ModeShapeResults.plot\<close>\<close>

text \<open>
  The payload is the complex matrix [degree of freedom, mode]; its element function is the
  store. Basic indexing returns views: a one-dimensional view is a length and the position
  in the store of each of its elements, so a write through the view is a write to the store.
\<close>

record view1 =
  count :: nat
  pos :: "nat \<Rightarrow> nat \<times> nat"

text \<open>\<^verbatim>\<open>self[:, mode]\<close> and \<^verbatim>\<open>v[start::4]\<close>.\<close>

definition column_view :: "'a array2 \<Rightarrow> int \<Rightarrow> error + view1" where
  "column_view a mode =
     bind (py_index (ncols a) mode) (\<lambda>m. Inr \<lparr>count = nrows a, pos = (\<lambda>d. (d, m))\<rparr>)"

definition every_fourth :: "view1 \<Rightarrow> nat \<Rightarrow> view1" where
  "every_fourth v start =
     \<lparr>count = (count v - start + 3) div 4, pos = (\<lambda>j. pos v (start + 4 * j))\<rparr>"

definition read_view :: "(nat \<Rightarrow> nat \<Rightarrow> 'a) \<Rightarrow> view1 \<Rightarrow> 'a list" where
  "read_view store v = map (\<lambda>j. store (fst (pos v j)) (snd (pos v j))) [0..<count v]"

text \<open>\<^verbatim>\<open>np.argmax\<close>: the first position of the maximum.\<close>

definition argmax :: "real list \<Rightarrow> error + nat" where
  "argmax a = bind (py_max a) (\<lambda>m. Inr (length (takeWhile (\<lambda>x. x \<noteq> m) a)))"

text \<open>
  \<^verbatim>\<open>v /= c\<close>: in-place division of every element of the view. The store afterwards holds
  \<open>Some z\<close> for a number \<open>z\<close> and \<open>None\<close> for the non-finite value that division by
  zero leaves (\<^verbatim>\<open>numpy\<close> warns and does not raise). Exact division stands for the floats'.
\<close>

definition idiv_view ::
    "(nat \<Rightarrow> nat \<Rightarrow> complex) \<Rightarrow> view1 \<Rightarrow> complex \<Rightarrow> (nat \<Rightarrow> nat \<Rightarrow> complex option)" where
  "idiv_view store v c =
     (\<lambda>r k. if (r, k) \<in> set (map (pos v) [0..<count v])
            then (if c = 0 then None else Some (store r k / c))
            else Some (store r k))"

text \<open>
  Lines 669 to 687 of the method: the view \<^verbatim>\<open>evec0\<close> of column \<open>mode\<close>, the four attribute
  reads, the two pivots, and the in-place normalisation \<^verbatim>\<open>evec0 /= ...\<close>. The statements
  after it read \<^verbatim>\<open>self\<close> and write only to new arrays and to the axes. The result is the
  store of \<^verbatim>\<open>self\<close> once the normalisation has run. \<open>mode\<close> is the integer index of
  the mode, and the factor 0.4 is the real number 2/5.
\<close>

definition ModeShapeResults_plot ::
    "complex array2 obj \<Rightarrow> int \<Rightarrow> error + (nat \<Rightarrow> nat \<Rightarrow> complex option)" where
  "ModeShapeResults_plot self mode =
     (let store = at2 (payload self) in
      bind (column_view (payload self) mode) (\<lambda>evec0.
      bind (getattr self ''nodes'') (\<lambda>nodes.
      bind (getattr self ''nodes_pos'') (\<lambda>nodes_pos.
      bind (getattr self ''kappa_modes'') (\<lambda>kappa_modes.
      bind (getattr self ''elements_length'') (\<lambda>elements_length.
      (let modex = every_fourth evec0 0;
           modey = every_fourth evec0 1
       in bind (py_max (map cmod (read_view store modex))) (\<lambda>xmax.
          bind (argmax (map cmod (read_view store modex))) (\<lambda>ixmax.
          bind (py_max (map cmod (read_view store modey))) (\<lambda>ymax.
          bind (argmax (map cmod (read_view store modey))) (\<lambda>iymax.
            if ymax > 2 / 5 * xmax
            then Inr (idiv_view store evec0 (read_view store modey ! iymax))
            else Inr (idiv_view store evec0 (read_view store modex ! ixmax)))))))))))))"

section \<open>Properties\<close>

subsection \<open>Attribute bookkeeping\<close>

lemma map_of_rev_None: "map_of (rev kvs) k = None \<longleftrightarrow> k \<notin> fst ` set kvs"
  by (simp add: map_of_eq_None_iff)



lemma setattr_ordinary:
  "ordinary tp k \<Longrightarrow> cls_of self \<noteq> Ndarray \<Longrightarrow> setattr tp self k v = Inr (write_dict self k v)"
  by (auto simp: setattr_def ordinary_def assign_def split: option.splits slot.splits)

lemma getattr_default_present:
  "ordinary tp k \<Longrightarrow> attrs obj k = Some w \<Longrightarrow> getattr_default tp obj k d = w"
  by (auto simp: getattr_default_def ordinary_def split: option.splits slot.splits)

lemma cls_of_write_dict: "cls_of (write_dict self k v) = cls_of self"
  by (simp add: write_dict_def)

lemma payload_write_dict: "payload (write_dict self k v) = payload self"
  by (simp add: write_dict_def)

lemma attrs_write_dict: "attrs (write_dict self k v) = (attrs self)(k \<mapsto> v)"
  by (simp add: write_dict_def)

lemma install_ordinary:
  "\<forall>k\<in>fst ` set kvs. ordinary tp k \<Longrightarrow> cls_of obj \<noteq> Ndarray \<Longrightarrow>
     install tp kvs obj =
       Inr \<lparr>cls_of = cls_of obj, payload = payload obj,
            attrs = attrs obj ++ map_of (rev kvs)\<rparr>"
proof (induction kvs arbitrary: obj)
  case Nil
  then show ?case by simp
next
  case (Cons kv kvs)
  obtain k v where kv: "kv = (k, v)" by (cases kv)
  have o: "ordinary tp k" and r: "\<forall>k\<in>fst ` set kvs. ordinary tp k"
    using Cons.prems(1) by (simp_all add: kv)
  have c: "cls_of (write_dict obj k v) \<noteq> Ndarray"
    using Cons.prems(2) by (simp add: cls_of_write_dict)
  have m: "attrs (write_dict obj k v) ++ map_of (rev kvs) = attrs obj ++ map_of (rev (kv # kvs))"
    by (auto simp: kv attrs_write_dict fun_eq_iff map_add_def split: option.splits)
  have "install tp (kv # kvs) obj = install tp kvs (write_dict obj k v)"
    by (simp add: kv bind_def setattr_ordinary [OF o Cons.prems(2)])
  also have "\<dots> = Inr \<lparr>cls_of = cls_of (write_dict obj k v), payload = payload (write_dict obj k v),
                        attrs = attrs (write_dict obj k v) ++ map_of (rev kvs)\<rparr>"
    by (rule Cons.IH [OF r c])
  also have "\<dots> = Inr \<lparr>cls_of = cls_of obj, payload = payload obj,
                        attrs = attrs obj ++ map_of (rev (kv # kvs))\<rparr>"
    by (simp only: m cls_of_write_dict payload_write_dict)
  finally show ?case .
qed

lemma propagate_ordinary:
  "\<forall>k\<in>fst ` set kvs. ordinary tp k \<and> attrs obj k \<noteq> None \<Longrightarrow> cls_of self \<noteq> Ndarray \<Longrightarrow>
     propagate tp kvs obj self =
       (None, \<lparr>cls_of = cls_of self, payload = payload self,
               attrs = (\<lambda>j. if j \<in> fst ` set kvs then attrs obj j else attrs self j)\<rparr>)"
proof (induction kvs arbitrary: self)
  case Nil
  then show ?case by simp
next
  case (Cons kv kvs)
  obtain k v where kv: "kv = (k, v)" by (cases kv)
  from Cons.prems(1) obtain w where o: "ordinary tp k" and w: "attrs obj k = Some w"
    by (auto simp: kv)
  have r: "\<forall>k\<in>fst ` set kvs. ordinary tp k \<and> attrs obj k \<noteq> None"
    using Cons.prems(1) by simp
  have c: "cls_of (write_dict self k w) \<noteq> Ndarray"
    using Cons.prems(2) by (simp add: cls_of_write_dict)
  have s: "setattr tp self k (getattr_default tp obj k v) = Inr (write_dict self k w)"
    by (simp add: getattr_default_present [OF o w] setattr_ordinary [OF o Cons.prems(2)])
  have m: "(\<lambda>j. if j \<in> fst ` set kvs then attrs obj j else attrs (write_dict self k w) j)
             = (\<lambda>j. if j \<in> fst ` set (kv # kvs) then attrs obj j else attrs self j)"
    by (auto simp: kv fun_eq_iff w attrs_write_dict)
  have "propagate tp (kv # kvs) obj self = propagate tp kvs obj (write_dict self k w)"
    by (simp add: kv s)
  also have "\<dots> = (None, \<lparr>cls_of = cls_of (write_dict self k w), payload = payload (write_dict self k w),
       attrs = (\<lambda>j. if j \<in> fst ` set kvs then attrs obj j else attrs (write_dict self k w) j)\<rparr>)"
    by (rule Cons.IH [OF r c])
  also have "\<dots> = (None, \<lparr>cls_of = cls_of self, payload = payload self,
       attrs = (\<lambda>j. if j \<in> fst ` set (kv # kvs) then attrs obj j else attrs self j)\<rparr>)"
    by (simp only: m cls_of_write_dict payload_write_dict)
  finally show ?case .
qed

lemma view_plain: "view tp c p = Inr (fresh c p)"
  by (simp add: view_def array_finalize_def fresh_def getattr_def)


lemma Results_new_dict:
  assumes "c \<noteq> Ndarray" and "\<forall>k\<in>fst ` set A. ordinary tp k"
  shows "Results_new tp c P (VDict A) =
           Inr \<lparr>cls_of = c, payload = P,
                attrs = (map_of (rev A))(''_new_attributes'' \<mapsto> VDict A)\<rparr>"
proof -
  have "install tp A (fresh c P) =
          Inr \<lparr>cls_of = cls_of (fresh c P), payload = payload (fresh c P),
               attrs = attrs (fresh c P) ++ map_of (rev A)\<rparr>"
    using assms by (intro install_ordinary) (simp_all add: fresh_def)
  then show ?thesis
    using assms(1)
    by (simp add: Results_new_def bind_def view_plain assign_def write_dict_def fresh_def)
qed

subsection \<open>Construction\<close>

text \<open>
  C3: for every payload, constructing an instance with an attributes argument that is not a
  mapping fails. The exception is the \<^verbatim>\<open>AttributeError\<close> of \<^verbatim>\<open>new_attributes.items()\<close>;
  this covers \<^verbatim>\<open>None\<close> (the default), a plain sequence and a primitive scalar.
\<close>

theorem Results_new_non_mapping:
  "(\<forall>kvs. new_attributes \<noteq> VDict kvs) \<Longrightarrow> Results_new tp c P new_attributes = Inl AttributeError"
  by (cases new_attributes) (simp_all add: Results_new_def bind_def view_plain)

theorem Results_new_non_mapping_witness:
  "(\<forall>kvs. VNone \<noteq> VDict kvs) \<and> Results_new table_1d Results [1, 2] VNone = Inl AttributeError
   \<and> Results_new table_1d Results [1, 2] (VList [VInt 1]) = Inl AttributeError
   \<and> Results_new table_1d Results [1, 2] (VInt 3) = Inl AttributeError"
  using Results_new_non_mapping [of VNone table_1d Results "[1, 2]"]
    Results_new_non_mapping [of "VList [VInt 1]" table_1d Results "[1, 2]"]
    Results_new_non_mapping [of "VInt 3" table_1d Results "[1, 2]"]
  by simp

subsection \<open>Propagation to derived instances\<close>

text \<open>
  C6: when the source of a derivation carries no registry \<^verbatim>\<open>_new_attributes\<close> (a plain
  array, for one), the hook returns the new instance as it is: there is no exception, and a
  new instance of any class finalized from such a source has no attributes.
\<close>

theorem array_finalize_without_registry:
  "attrs obj ''_new_attributes'' = None \<Longrightarrow>
     array_finalize tp self (Some obj) = Inr self \<and>
     map_sum id attrs (array_finalize tp (fresh c p) (Some obj)) = Inr Map.empty"
  by (simp add: array_finalize_def getattr_def fresh_def)

theorem array_finalize_without_registry_witness:
  "attrs (fresh Ndarray [1, 2 :: real]) ''_new_attributes'' = None
   \<and> array_finalize table_1d (fresh Results [1]) (Some (fresh Ndarray [1, 2]))
       = Inr (fresh Results [1])
   \<and> map_sum id attrs
       (array_finalize table_1d (fresh CampbellResults [1]) (Some (fresh Ndarray [1, 2])))
       = Inr Map.empty"
  using array_finalize_without_registry
    [of "fresh Ndarray [1, 2]" table_1d "fresh Results [1]" CampbellResults "[1]"]
  by (simp add: fresh_def)

text \<open>What the hook builds from a source that \<^verbatim>\<open>__new__\<close> has returned.\<close>

lemma derived_of_new:
  assumes "c \<noteq> Ndarray" and "\<forall>k\<in>fst ` set A. ordinary tp k"
    and "Results_new tp c P (VDict A) = Inr x"
  shows "derived tp x p =
           Inr \<lparr>cls_of = c, payload = p,
                attrs = (\<lambda>k. if k \<in> fst ` set A then attrs x k else None)\<rparr>"
proof -
  have x: "x = \<lparr>cls_of = c, payload = P,
                 attrs = (map_of (rev A))(''_new_attributes'' \<mapsto> VDict A)\<rparr>"
    using assms by (simp add: Results_new_dict)
  have reg: "attrs x ''_new_attributes'' = Some (VDict A)" and cx: "cls_of x = c"
    by (simp_all add: x)
  have has: "\<forall>k\<in>fst ` set A. ordinary tp k \<and> attrs x k \<noteq> None"
  proof
    fix k assume k: "k \<in> fst ` set A"
    then have "attrs x k \<noteq> None"
      using map_of_rev_None [of A k] by (auto simp: x)
    with k assms(2) show "ordinary tp k \<and> attrs x k \<noteq> None" by auto
  qed
  have f: "cls_of (fresh c p) \<noteq> Ndarray"
    using assms(1) by (simp add: fresh_def)
  have "propagate tp A x (fresh c p) =
          (None, \<lparr>cls_of = c, payload = p,
                  attrs = (\<lambda>k. if k \<in> fst ` set A then attrs x k else None)\<rparr>)"
    using propagate_ordinary [OF has f] by (simp add: fresh_def cong: if_cong)
  then show ?thesis
    by (simp add: derived_def array_finalize_def getattr_def reg cx)
qed

text \<open>
  The second derivation, for every mapping of ordinary names that does not name the
  registry: the first derivation has no registry, so the hook adds nothing to the second.
\<close>

lemma derived_of_derived:
  assumes "c \<noteq> Ndarray" and "\<forall>k\<in>fst ` set A. ordinary tp k"
    and "Results_new tp c P (VDict A) = Inr x" and "''_new_attributes'' \<notin> fst ` set A"
    and "derived tp x p = Inr y"
  shows "derived tp y q = Inr (fresh c q)"
proof -
  have y: "y = \<lparr>cls_of = c, payload = p,
                 attrs = (\<lambda>k. if k \<in> fst ` set A then attrs x k else None)\<rparr>"
    using derived_of_new [OF assms(1-3), of p] assms(5) by simp
  have "attrs y ''_new_attributes'' = None" and "cls_of y = c"
    using assms(4) by (simp_all add: y)
  then show ?thesis
    by (simp add: derived_def array_finalize_def getattr_def)
qed

text \<open>
  C9: evaluation at a slice of a slice. The hook copies the attributes named in the registry
  but not the registry, so the first derivation has \<^verbatim>\<open>speed\<close> and no \<^verbatim>\<open>_new_attributes\<close>,
  the second derivation has no attribute at all, and pickling the first derivation raises
  \<^verbatim>\<open>AttributeError\<close> in \<^verbatim>\<open>__reduce__\<close>.
\<close>

theorem derived_twice_drops_attributes:
  "Results_new table_1d Results [1, 2, 3] (VDict [(''speed'', VFloat 3)]) =
     Inr \<lparr>cls_of = Results, payload = [1, 2, 3],
          attrs = [''speed'' \<mapsto> VFloat 3, ''_new_attributes'' \<mapsto> VDict [(''speed'', VFloat 3)]]\<rparr>
   \<and> derived table_1d \<lparr>cls_of = Results, payload = [1, 2, 3],
          attrs = [''speed'' \<mapsto> VFloat 3, ''_new_attributes'' \<mapsto> VDict [(''speed'', VFloat 3)]]\<rparr>
        [1, 2]
       = Inr \<lparr>cls_of = Results, payload = [1, 2], attrs = [''speed'' \<mapsto> VFloat 3]\<rparr>
   \<and> derived table_1d \<lparr>cls_of = Results, payload = [1, 2], attrs = [''speed'' \<mapsto> VFloat 3]\<rparr> [1]
       = Inr \<lparr>cls_of = Results, payload = [1], attrs = Map.empty\<rparr>
   \<and> dumps nd_reduce_1d
         \<lparr>cls_of = Results, payload = [1, 2], attrs = [''speed'' \<mapsto> VFloat 3]\<rparr>
       = Inl AttributeError"
  by (simp add: Results_new_def bind_def view_def derived_def array_finalize_def getattr_def
      getattr_default_def fresh_def setattr_def assign_def write_dict_def table_1d_def dumps_def
      Results_reduce_def)





subsection \<open>The abstract \<^verbatim>\<open>plot\<close>\<close>

text \<open>
  C8: on every instance and for all positional and keyword arguments, \<^verbatim>\<open>Results.plot\<close>
  raises \<^verbatim>\<open>NotImplementedError\<close>.
\<close>

theorem Results_plot_unsupported:
  "Results_plot self args kwargs = Inl NotImplementedError"
  by (simp add: Results_plot_def)

subsection \<open>Pickling\<close>














subsection \<open>The Campbell diagram\<close>

lemma upt2: "[0..<2] = [0, 1]" by (simp add: upt_rec)

text \<open>
  C7: for a Campbell instance with two speed steps and one mode whose whirl value is 0.0 at
  both steps, the series drawn with the forward marker holds exactly the two points
  (speed, damped frequency) of the two steps, and the series drawn with the mixed and the
  backward marker hold no point. This holds for either value of \<^verbatim>\<open>wn\<close>.
\<close>

theorem campbell_forward_series:
  assumes "dim0 (payload self) = 2" and "dim1 (payload self) = 1" and "dim2 (payload self) = 5"
    and "at3 (payload self) 0 0 2 = 0" and "at3 (payload self) 1 0 2 = 0"
  shows "CampbellResults_plot self wn =
           Inr [\<lparr>marker = ''^'', legend = ''Foward'',
                 x_data = [at3 (payload self) 0 0 3, at3 (payload self) 1 0 3],
                 y_data = [at3 (payload self) 0 0 0, at3 (payload self) 1 0 0],
                 color_data = [at3 (payload self) 0 0 1, at3 (payload self) 1 0 1]\<rparr>,
                \<lparr>marker = ''o'', legend = ''Mixed'', x_data = [], y_data = [], color_data = []\<rparr>,
                \<lparr>marker = ''v'', legend = ''Backward'', x_data = [], y_data = [], color_data = []\<rparr>]"
  using assms
  by (simp add: CampbellResults_plot_def last_axis_def bind_def flatten_def py_min_def py_max_def
      scatter_mode_def column_def column_checked_def select_def upt2 Let_def)

theorem campbell_forward_series_witness:
  "CampbellResults_plot
     \<lparr>cls_of = CampbellResults,
      payload = \<lparr>dim0 = 2, dim1 = 1, dim2 = 5,
                 at3 = (\<lambda>s i q. [[10, 1 / 10, 0, 100, 11], [12, 1 / 5, 0, 200, 13]] ! s ! q)\<rparr>,
      attrs = Map.empty\<rparr> False =
     Inr [\<lparr>marker = ''^'', legend = ''Foward'',
           x_data = [100, 200], y_data = [10, 12], color_data = [1 / 10, 1 / 5]\<rparr>,
          \<lparr>marker = ''o'', legend = ''Mixed'', x_data = [], y_data = [], color_data = []\<rparr>,
          \<lparr>marker = ''v'', legend = ''Backward'', x_data = [], y_data = [], color_data = []\<rparr>]"
  using campbell_forward_series
    [of "\<lparr>cls_of = CampbellResults,
      payload = \<lparr>dim0 = 2, dim1 = 1, dim2 = 5,
                 at3 = (\<lambda>s i q. [[10, 1 / 10, 0, 100, 11], [12, 1 / 5, 0, 200, 13]] ! s ! q)\<rparr>,
      attrs = Map.empty\<rparr>" False]
  by simp

subsection \<open>Magnitude plots\<close>

text \<open>
  C10: with a \<^verbatim>\<open>units\<close> value other than \<^verbatim>\<open>m\<close> and \<^verbatim>\<open>mic-pk-pk\<close>,
  \<^verbatim>\<open>ForcedResponseResults.plot_magnitude\<close> raises on every instance, and where the call
  with \<^verbatim>\<open>m\<close> returns, the exception is the \<^verbatim>\<open>UnboundLocalError\<close> of \<^verbatim>\<open>y_axis_label\<close>;
  \<^verbatim>\<open>FrequencyResponseResults.plot_magnitude\<close> returns wherever the call with \<^verbatim>\<open>m\<close> does,
  with the same plot under the dB labels.
\<close>

theorem plot_magnitude_other_units:
  assumes "units \<noteq> ''m''" and "units \<noteq> ''mic-pk-pk''"
  shows "isl (ForcedResponseResults_plot_magnitude self dof ax units)
       \<and> (\<forall>r. ForcedResponseResults_plot_magnitude self dof ax ''m'' = Inr r \<longrightarrow>
              ForcedResponseResults_plot_magnitude self dof ax units = Inl UnboundLocalError)
       \<and> (\<forall>ax' fig. FrequencyResponseResults_plot_magnitude self' inp out ax ''m'' = Inr (ax', fig) \<longrightarrow>
              FrequencyResponseResults_plot_magnitude self' inp out ax units =
                Inr (ax'\<lparr>ax_ylabel := ''Amplitude $(dB)$''\<rparr>,
                     fig\<lparr>fig_y_axis_label := ''Amplitude (dB''\<rparr>))"
proof (intro conjI allI impI)
  show "isl (ForcedResponseResults_plot_magnitude self dof ax units)"
    using assms
    by (simp add: ForcedResponseResults_plot_magnitude_def bind_def read_local_def
        split: sum.splits)
next
  fix r assume "ForcedResponseResults_plot_magnitude self dof ax ''m'' = Inr r"
  then show "ForcedResponseResults_plot_magnitude self dof ax units = Inl UnboundLocalError"
    using assms
    by (auto simp: ForcedResponseResults_plot_magnitude_def bind_def read_local_def ax_plot_def
        split: sum.splits if_splits)
next
  fix ax' fig
  assume "FrequencyResponseResults_plot_magnitude self' inp out ax ''m'' = Inr (ax', fig)"
  then show "FrequencyResponseResults_plot_magnitude self' inp out ax units =
                Inr (ax'\<lparr>ax_ylabel := ''Amplitude $(dB)$''\<rparr>,
                     fig\<lparr>fig_y_axis_label := ''Amplitude (dB''\<rparr>)"
    using assms
    by (auto simp: FrequencyResponseResults_plot_magnitude_def bind_def ax_plot_def
        split: sum.splits if_splits)
qed

theorem plot_magnitude_other_units_witness:
  "''dB'' \<noteq> ''m'' \<and> ''dB'' \<noteq> ''mic-pk-pk''
   \<and> ForcedResponseResults_plot_magnitude
         \<lparr>cls_of = ForcedResponseResults, payload = (),
          attrs = [''frequency_range'' \<mapsto> VArray [2] [1, 2],
                   ''magnitude'' \<mapsto> VArray [1, 2] [3, 4]]\<rparr> 0
         \<lparr>ax_ylabel = [], ax_xlabel = [], ax_xlim = None, ax_lines = [], ax_legend = False\<rparr>
         ''dB'' = Inl UnboundLocalError
   \<and> FrequencyResponseResults_plot_magnitude
         \<lparr>cls_of = FrequencyResponseResults, payload = (),
          attrs = [''frequency_range'' \<mapsto> VArray [2] [1, 2],
                   ''magnitude'' \<mapsto> VArray [1, 1, 2] [3, 4]]\<rparr> 0 0
         \<lparr>ax_ylabel = [], ax_xlabel = [], ax_xlim = None, ax_lines = [], ax_legend = False\<rparr>
         ''dB'' =
       Inr (\<lparr>ax_ylabel = ''Amplitude $(dB)$'', ax_xlabel = ''Frequency (rad/s)'',
             ax_xlim = Some (0, 2), ax_lines = [([1, 2], [3, 4])], ax_legend = False\<rparr>,
            \<lparr>fig_title = ''Frequency Response - Magnitude'', fig_x_axis_label = ''Frequency'',
             fig_y_axis_label = ''Amplitude (dB'', fig_x_range = None,
             fig_line = ([1, 2], [3, 4])\<rparr>)"
proof -
  let ?a = "\<lparr>ax_ylabel = [], ax_xlabel = [], ax_xlim = None, ax_lines = [], ax_legend = False\<rparr>"
  let ?f = "\<lparr>cls_of = ForcedResponseResults, payload = (),
          attrs = [''frequency_range'' \<mapsto> VArray [2] [1, 2],
                   ''magnitude'' \<mapsto> VArray [1, 2] [3, 4]]\<rparr>"
  let ?g = "\<lparr>cls_of = FrequencyResponseResults, payload = (),
          attrs = [''frequency_range'' \<mapsto> VArray [2] [1, 2],
                   ''magnitude'' \<mapsto> VArray [1, 1, 2] [3, 4]]\<rparr>"
  have u: "''dB'' \<noteq> ''m''" "''dB'' \<noteq> ''mic-pk-pk''" by simp_all
  have f: "ForcedResponseResults_plot_magnitude ?f 0 ?a ''m'' =
             Inr (\<lparr>ax_ylabel = ''Amplitude $(m)$'', ax_xlabel = ''Frequency (rad/s)'',
                   ax_xlim = Some (0, 2), ax_lines = [([1, 2], [3, 4])], ax_legend = True\<rparr>,
                  \<lparr>fig_title = ''Forced Response - Magnitude'', fig_x_axis_label = ''Frequency'',
                   fig_y_axis_label = ''Amplitude (m)'', fig_x_range = Some (0, 2),
                   fig_line = ([1, 2], [3, 4])\<rparr>)"
    by (simp add: ForcedResponseResults_plot_magnitude_def bind_def attr_vector_def
        attr_matrix_def getattr_def row_def py_index_def ax_plot_def py_max_def read_local_def
        upt_rec)
  have g: "FrequencyResponseResults_plot_magnitude ?g 0 0 ?a ''m'' =
             Inr (\<lparr>ax_ylabel = ''Amplitude $(m)$'', ax_xlabel = ''Frequency (rad/s)'',
                   ax_xlim = Some (0, 2), ax_lines = [([1, 2], [3, 4])], ax_legend = False\<rparr>,
                  \<lparr>fig_title = ''Frequency Response - Magnitude'', fig_x_axis_label = ''Frequency'',
                   fig_y_axis_label = ''Amplitude (m)'', fig_x_range = None,
                   fig_line = ([1, 2], [3, 4])\<rparr>)"
    by (simp add: FrequencyResponseResults_plot_magnitude_def bind_def attr_vector_def
        attr_tensor_def getattr_def fibre_def py_index_def ax_plot_def py_max_def
        upt_rec)
  show ?thesis
    using plot_magnitude_other_units [OF u, of ?f 0 ?a ?g 0 0] f g u by simp
qed

subsection \<open>The mode shape plot\<close>

text \<open>
  C4: evaluation at a mode-shape instance with two nodes (eight degrees of freedom) and one
  mode, whose column is 2, 0, 0, 0, 1, 0, 0, 0. The renderer divides the column of
  \<^verbatim>\<open>self\<close> by the pivot 2 through the view \<^verbatim>\<open>evec0\<close>: after the call the payload holds
  1, 0, 0, 0, 1/2, 0, 0, 0.
\<close>

theorem ModeShapeResults_plot_divides_payload:
  "map_sum id (\<lambda>store. map (\<lambda>d. store d 0) [0..<8])
     (ModeShapeResults_plot
        \<lparr>cls_of = ModeShapeResults,
         payload = \<lparr>nrows = 8, ncols = 1, at2 = (\<lambda>d m. [2, 0, 0, 0, 1, 0, 0, 0] ! d)\<rparr>,
         attrs = [''nodes'' \<mapsto> VList [VInt 0, VInt 1],
                  ''nodes_pos'' \<mapsto> VList [VFloat 0, VFloat 1],
                  ''kappa_modes'' \<mapsto> VList [VList [VStr ''tab:blue'', VStr ''tab:blue'']],
                  ''elements_length'' \<mapsto> VList [VFloat 1]]\<rparr> 0)
   = Inr [Some 1, Some 0, Some 0, Some 0, Some (1 / 2), Some 0, Some 0, Some 0]"
  by (simp add: ModeShapeResults_plot_def bind_def column_view_def py_index_def getattr_def
      every_fourth_def read_view_def py_max_def argmax_def idiv_view_def upt_rec)

end
